theory Spec2Isabelle
  imports Complex_Main "HOL-Library.AList"
begin

section \<open>Numbers and errors of the Python program\<close>

text \<open>
  The amounts of \<^verbatim>\<open>main.py\<close> are Python floats, that is binary64 numbers. A float is
  modelled as a finite real number or one of the three special values that
  \<^verbatim>\<open>float()\<close> can produce from text (\<^verbatim>\<open>inf\<close>, \<^verbatim>\<open>-inf\<close>, \<^verbatim>\<open>nan\<close>). The two zeros
  of binary64 are one value here. Ticket counts are Python integers, which are
  unbounded.
\<close>

datatype pyfloat = Finite real | PosInf | NegInf | NaN

text \<open>
  Rounding a real number to binary64, to the nearest number and on a tie to the one
  with the even significand. \<open>pow2 e\<close> is the power of two with the integer exponent
  \<open>e\<close>. \<open>binade lo hi x\<close> is the largest exponent \<open>e\<close> from \<open>lo\<close> to \<open>hi\<close> with
  \<open>pow2 e \<le> x\<close>, found by bisection, and \<open>lo\<close> when there is none. A number \<open>x\<close>
  with the exponent \<open>e\<close>, which is at least \<open>-1022\<close> (below that the numbers are
  subnormal), lies among binary64 numbers \<open>pow2 (e - 52)\<close> apart and is rounded to a
  multiple of this spacing. A result of magnitude \<open>2 ^ 1024\<close> is beyond the largest
  binary64 number and is an infinity.
\<close>

definition pow2 :: "int \<Rightarrow> real" where
  "pow2 e = (if 0 \<le> e then 2 ^ nat e else 1 / 2 ^ nat (- e))"

definition round_half_even :: "real \<Rightarrow> int" where
  "round_half_even y =
     (let f = \<lfloor>y\<rfloor>; r = y - of_int f
      in if r < 1 / 2 then f
         else if 1 / 2 < r then f + 1
         else if even f then f else f + 1)"

function binade :: "int \<Rightarrow> int \<Rightarrow> real \<Rightarrow> int" where
  "binade lo hi x =
     (if hi \<le> lo then lo
      else let mid = (lo + hi + 1) div 2
           in if pow2 mid \<le> x then binade mid hi x else binade lo (mid - 1) x)"
  by pat_completeness auto
termination
  by (relation "measure (\<lambda>(lo, hi, x). nat (hi - lo))") auto

declare binade.simps [simp del]

definition round64 :: "real \<Rightarrow> pyfloat" where
  "round64 x =
     (if x = 0 then Finite 0
      else let e = binade (- 1022) 1023 \<bar>x\<bar>;
               u = pow2 (e - 52);
               r = of_int (round_half_even (x / u)) * u
           in if 2 ^ 1024 \<le> \<bar>r\<bar> then (if 0 < x then PosInf else NegInf)
              else Finite r)"

datatype error = ValueError | OverflowError | TimeoutException

text \<open>Python's \<^verbatim>\<open>a < b\<close> on floats: every comparison with \<^verbatim>\<open>nan\<close> is false.\<close>

fun flt :: "pyfloat \<Rightarrow> pyfloat \<Rightarrow> bool" where
  "flt (Finite a) (Finite b) = (a < b)"
| "flt NaN _ = False"
| "flt _ NaN = False"
| "flt NegInf NegInf = False"
| "flt NegInf _ = True"
| "flt PosInf _ = False"
| "flt (Finite a) PosInf = True"
| "flt (Finite a) NegInf = False"

fun fneg :: "pyfloat \<Rightarrow> pyfloat" where
  "fneg (Finite a) = Finite (- a)"
| "fneg PosInf = NegInf"
| "fneg NegInf = PosInf"
| "fneg NaN = NaN"

text \<open>
  Python's \<^verbatim>\<open>a == b\<close> on floats: \<^verbatim>\<open>nan\<close> is equal to nothing, not even to itself.
\<close>

fun feq :: "pyfloat \<Rightarrow> pyfloat \<Rightarrow> bool" where
  "feq NaN _ = False"
| "feq _ NaN = False"
| "feq a b = (a = b)"

text \<open>
  Python's \<^verbatim>\<open>a + b\<close> on floats, the addition of \<^verbatim>\<open>total += ...\<close> in \<^verbatim>\<open>main\<close>: the
  sum of two finite numbers is rounded to binary64; opposite infinities give
  \<^verbatim>\<open>nan\<close>.
\<close>

fun fadd :: "pyfloat \<Rightarrow> pyfloat \<Rightarrow> pyfloat" where
  "fadd (Finite a) (Finite b) = round64 (a + b)"
| "fadd NaN _ = NaN"
| "fadd _ NaN = NaN"
| "fadd PosInf NegInf = NaN"
| "fadd NegInf PosInf = NaN"
| "fadd PosInf _ = PosInf"
| "fadd NegInf _ = NegInf"
| "fadd (Finite a) PosInf = PosInf"
| "fadd (Finite a) NegInf = NegInf"

text \<open>
  The subtraction and the division of \<^verbatim>\<open>(amount - 30) / 20\<close> in
  \<^verbatim>\<open>calculate_tickets\<close>, the only ones of the program; the divisor is a positive
  finite constant. Both are kept exact, since \<^verbatim>\<open>math.floor\<close> of the exact quotient
  is that of the binary64 one wherever the count is not capped: for a binary64 amount
  from 30 to below \<open>2 ^ 54\<close>, the amount and 30 are multiples of the spacing at the
  amount, so the difference is a binary64 number; and the quotient of a binary64
  number below \<open>20 * k\<close> by 20 stays more than half a spacing below the integer \<open>k\<close>,
  so it is not rounded up to \<open>k\<close>.
\<close>

fun fsub :: "pyfloat \<Rightarrow> pyfloat \<Rightarrow> pyfloat" where
  "fsub (Finite a) (Finite b) = Finite (a - b)"
| "fsub NaN _ = NaN"
| "fsub _ NaN = NaN"
| "fsub PosInf PosInf = NaN"
| "fsub NegInf NegInf = NaN"
| "fsub PosInf _ = PosInf"
| "fsub NegInf _ = NegInf"
| "fsub (Finite a) PosInf = NegInf"
| "fsub (Finite a) NegInf = PosInf"

fun fdiv_pos :: "pyfloat \<Rightarrow> real \<Rightarrow> pyfloat" where
  "fdiv_pos (Finite a) d = Finite (a / d)"
| "fdiv_pos PosInf d = PosInf"
| "fdiv_pos NegInf d = NegInf"
| "fdiv_pos NaN d = NaN"

text \<open>
  \<^verbatim>\<open>math.floor\<close>: raises \<^verbatim>\<open>OverflowError\<close> on an infinity and \<^verbatim>\<open>ValueError\<close> on
  \<^verbatim>\<open>nan\<close>.
\<close>

fun math_floor :: "pyfloat \<Rightarrow> error + int" where
  "math_floor (Finite a) = Inr \<lfloor>a\<rfloor>"
| "math_floor PosInf = Inl OverflowError"
| "math_floor NegInf = Inl OverflowError"
| "math_floor NaN = Inl ValueError"

section \<open>The ticket calculator\<close>

text \<open>
  \<^verbatim>\<open>
  def calculate_tickets(amount):
      if amount < 30:
          return 0
      tickets = math.floor((amount - 30) / 20) + 1
      return min(tickets, 50)
  \<close>
\<close>

definition calculate_tickets :: "pyfloat \<Rightarrow> error + int" where
  "calculate_tickets amount =
     (if flt amount (Finite 30) then Inr 0
      else case math_floor (fdiv_pos (fsub amount (Finite 30)) 20) of
             Inl e \<Rightarrow> Inl e
           | Inr fl \<Rightarrow> (let tickets = fl + 1 in Inr (min tickets 50)))"

section \<open>Strings\<close>

text \<open>
  A text is a list of characters with code points below 256. \<^verbatim>\<open>str.strip()\<close> removes
  the characters for which \<^verbatim>\<open>str.isspace()\<close> holds from both ends; below 256 these
  are the code points 9 to 13, 28 to 32, 133 and 160.
\<close>

definition is_space :: "char \<Rightarrow> bool" where
  "is_space c = (c \<in> set [CHR 0x09, CHR 0x0A, CHR 0x0B, CHR 0x0C, CHR 0x0D,
                            CHR 0x1C, CHR 0x1D, CHR 0x1E, CHR 0x1F, CHR 0x20,
                            CHR 0x85, CHR 0xA0])"

definition strip :: "string \<Rightarrow> string" where
  "strip s = rev (dropWhile is_space (rev (dropWhile is_space s)))"

text \<open>
  \<^verbatim>\<open>str.lower()\<close>: below 256 the letters with a lower-case partner are A to Z and the
  code points 192 to 222 except 215; the partner is 32 above, which for these code
  points is the same character with bit 5 set.
\<close>

definition lower_char :: "char \<Rightarrow> char" where
  "lower_char c =
     (let n = (of_char c :: nat)
      in if (65 \<le> n \<and> n \<le> 90) \<or> (192 \<le> n \<and> n \<le> 222 \<and> n \<noteq> 215)
         then Char (digit0 c) (digit1 c) (digit2 c) (digit3 c) (digit4 c) True
                (digit6 c) (digit7 c)
         else c)"

definition lower :: "string \<Rightarrow> string" where
  "lower s = map lower_char s"

text \<open>\<^verbatim>\<open>s.replace(old, new)\<close> for a one-character \<^verbatim>\<open>old\<close>, as the program calls it.\<close>

definition replace :: "char \<Rightarrow> string \<Rightarrow> string \<Rightarrow> string" where
  "replace old new s = concat (map (\<lambda>c. if c = old then new else [c]) s)"

text \<open>\<^verbatim>\<open>sep.join(xs)\<close>\<close>

fun join :: "string \<Rightarrow> string list \<Rightarrow> string" where
  "join sep [] = []"
| "join sep [x] = x"
| "join sep (x # y # ys) = x @ sep @ join sep (y # ys)"

section \<open>The built-in \<^verbatim>\<open>float()\<close> on a string\<close>

text \<open>
  \<^verbatim>\<open>float(s)\<close> is part of the Python runtime; it is modelled after CPython's
  \<^verbatim>\<open>PyFloat_FromString\<close>. The result \<open>None\<close> stands for \<^verbatim>\<open>ValueError\<close>, the only
  exception \<^verbatim>\<open>float()\<close> raises on a string.

  First every character from code point 127 on is replaced: white space by a blank,
  anything else by a question mark (below 256 there is no decimal digit other than
  0 to 9). Characters below 127 stay as they are. CPython also cuts the string after
  the first question mark; the question mark makes the parse fail either way.
\<close>

definition transform_space_to_ascii :: "string \<Rightarrow> string" where
  "transform_space_to_ascii s =
     map (\<lambda>c. if (of_char c :: nat) < 127 then c
              else if is_space c then CHR '' '' else CHR ''?'') s"

definition is_digit :: "char \<Rightarrow> bool" where
  "is_digit c = (c \<in> set ''0123456789'')"

text \<open>
  Underscores: allowed only between two digits. The check runs over the whole string,
  before white space is stripped, and only when the string has an underscore.
\<close>

fun underscores_ok :: "char \<Rightarrow> string \<Rightarrow> bool" where
  "underscores_ok prev [] = (prev \<noteq> CHR ''_'')"
| "underscores_ok prev (c # cs) =
     (if c = CHR ''_'' then is_digit prev \<and> underscores_ok c cs
      else if prev = CHR ''_'' then is_digit c \<and> underscores_ok c cs
      else underscores_ok c cs)"

text \<open>The white space of C's \<^verbatim>\<open>isspace\<close>, stripped from both ends before parsing.\<close>

definition c_isspace :: "char \<Rightarrow> bool" where
  "c_isspace c = (c \<in> set [CHR 0x09, CHR 0x0A, CHR 0x0B, CHR 0x0C, CHR 0x0D, CHR 0x20])"

definition parse_sign :: "string \<Rightarrow> bool \<times> string" where
  "parse_sign s =
     (case s of
        [] \<Rightarrow> (False, [])
      | c # cs \<Rightarrow>
          if c = CHR ''-'' then (True, cs)
          else if c = CHR ''+'' then (False, cs)
          else (False, s))"

text \<open>
  \<^verbatim>\<open>inf\<close>, \<^verbatim>\<open>infinity\<close> and \<^verbatim>\<open>nan\<close> in any letter case. (CPython compares with
  ASCII case folding; on these three words \<open>lower\<close> decides the same.)
\<close>

definition parse_inf_or_nan :: "string \<Rightarrow> pyfloat option" where
  "parse_inf_or_nan s =
     (let l = lower s
      in if l = ''inf'' \<or> l = ''infinity'' then Some PosInf
         else if l = ''nan'' then Some NaN
         else None)"

definition digit_val :: "char \<Rightarrow> nat" where
  "digit_val c = of_char c - 48"

definition digits_val :: "string \<Rightarrow> nat" where
  "digits_val ds = foldl (\<lambda>a d. 10 * a + digit_val d) 0 ds"

text \<open>The exponent part: empty, or \<^verbatim>\<open>e\<close> or \<^verbatim>\<open>E\<close>, an optional sign and digits.\<close>

definition parse_exponent :: "string \<Rightarrow> int option" where
  "parse_exponent s =
     (case s of
        [] \<Rightarrow> Some 0
      | c # cs \<Rightarrow>
          if c = CHR ''e'' \<or> c = CHR ''E'' then
            (let (neg, ds) = parse_sign cs
             in if ds \<noteq> [] \<and> list_all is_digit ds
                then Some (if neg then - int (digits_val ds) else int (digits_val ds))
                else None)
          else None)"

definition scale10 :: "nat \<Rightarrow> int \<Rightarrow> real" where
  "scale10 m e = (if 0 \<le> e then real m * 10 ^ nat e else real m / 10 ^ nat (- e))"

text \<open>
  The unsigned decimal number: digits, an optional point and digits, with a digit on at
  least one side of the point, then the exponent part. This is the exact value of the
  decimal number; it is rounded afterwards.
\<close>

definition parse_number :: "string \<Rightarrow> real option" where
  "parse_number s =
     (let ip = takeWhile is_digit s;
          r1 = dropWhile is_digit s;
          (fp, r2) =
            (case r1 of
               [] \<Rightarrow> ([], [])
             | c # cs \<Rightarrow>
                 if c = CHR ''.'' then (takeWhile is_digit cs, dropWhile is_digit cs)
                 else ([], r1))
      in if ip = [] \<and> fp = [] then None
         else case parse_exponent r2 of
                None \<Rightarrow> None
              | Some e \<Rightarrow> Some (scale10 (digits_val (ip @ fp)) (e - int (length fp))))"

text \<open>
  The decimal number is rounded to binary64; a magnitude that rounds beyond the largest
  binary64 number becomes an infinity.
\<close>

definition to_double :: "real \<Rightarrow> pyfloat" where
  "to_double v = round64 v"

definition float_from_string_inner :: "string \<Rightarrow> pyfloat option" where
  "float_from_string_inner s =
     (let t = rev (dropWhile c_isspace (rev (dropWhile c_isspace s)))
      in if t = [] then None
         else let (neg, r) = parse_sign t
              in case parse_inf_or_nan r of
                   Some v \<Rightarrow> Some (if neg then fneg v else v)
                 | None \<Rightarrow>
                     (case parse_number r of
                        None \<Rightarrow> None
                      | Some m \<Rightarrow> Some (if neg then fneg (to_double m) else to_double m)))"

definition py_float :: "string \<Rightarrow> pyfloat option" where
  "py_float v =
     (let s = transform_space_to_ascii v
      in if CHR ''_'' \<in> set s then
           (if underscores_ok (CHR 0x00) s
            then float_from_string_inner (filter (\<lambda>c. c \<noteq> CHR ''_'') s)
            else None)
         else float_from_string_inner s)"

section \<open>The data model\<close>

text \<open>
  The dictionaries of \<^verbatim>\<open>main.py\<close> with fixed keys are records. The key
  \<^verbatim>\<open>"total"\<close> is the field \<open>total_amt\<close>. The entries of \<^verbatim>\<open>participant_data\<close> have
  the keys of a member record and are member records here.
\<close>

record team_ref =
  team_name :: string
  team_link :: string

record member_record =
  full_name :: string
  amount :: pyfloat
  team :: string

record team_aggregate =
  members :: "string list"
  total_amt :: pyfloat
  team_gifts :: pyfloat

record participant_row =
  Full_Name :: string
  Team :: string
  Amount_Raised :: pyfloat
  Attendance :: string
  Shirt_Size :: string
  Raffle_Tickets :: int

record team_row =
  Team_Name :: string
  Members :: string
  Team_Gifts :: pyfloat
  Total_Raised :: pyfloat
  Team_Raffle_Tickets :: int
  Camera_Collected :: string

text \<open>
  \<^verbatim>\<open>team_data\<close> is a Python dictionary, which keeps its keys in insertion order; the
  team rows are built in that order. It is a list of key and value pairs with distinct
  keys.
\<close>

type_synonym team_dict = "(string \<times> team_aggregate) list"

text \<open>The lines the program prints while scraping.\<close>

datatype diagnostic =
    Could_not_find_participant_blocks string
  | Skipping_a_block string

section \<open>The browser, as the program sees it\<close>

text \<open>
  What the Selenium driver answers on a team's detail page. A member block has the text
  of its name element and of its amount element, \<open>None\<close> when looking the element up
  or reading its text raises. On the page, \<open>user_info_h2\<close> is the text of the element
  the first wait returns (\<open>None\<close>: the wait ends in \<^verbatim>\<open>TimeoutException\<close>),
  \<open>personal_header\<close> the text of \<^verbatim>\<open>h1#personal_header\<close> (\<open>None\<close>: the lookup
  raises), \<open>items_present\<close> whether the wait for a member block returns, and
  \<open>member_blocks\<close> what \<^verbatim>\<open>find_elements\<close> returns then. Failures of the browser
  itself are outside the model.
\<close>

record block =
  participant_name :: "string option"
  participant_raised :: "string option"

record page =
  user_info_h2 :: "string option"
  personal_header :: "string option"
  items_present :: bool
  member_blocks :: "block list"

section \<open>Scraping a team's detail page\<close>


text \<open>
  Step 1 of \<^verbatim>\<open>scrape_team_members\<close>:
  \<^verbatim>\<open>
      try:
          team_name_el = WebDriverWait(driver, 10).until(... "div.user-info h2" ...)
          detail_team_name = team_name_el.text.strip()
      except TimeoutException:
          try:
              team_name_el = driver.find_element(By.CSS_SELECTOR, "h1#personal_header")
              detail_team_name = team_name_el.text.strip()
          except:
              detail_team_name = "Unknown Team"
  \<close>
\<close>

definition detail_team_name :: "page \<Rightarrow> string" where
  "detail_team_name pg =
     (case user_info_h2 pg of
        Some txt \<Rightarrow> strip txt
      | None \<Rightarrow>
          (case personal_header pg of
             Some txt \<Rightarrow> strip txt
           | None \<Rightarrow> ''Unknown Team''))"

text \<open>
  \<^verbatim>\<open>
      amount_str = amount_el.text.strip().replace("$", "").replace(",", "")
      try:
          amount = float(amount_str)
      except ValueError:
          amount = 0.0
  \<close>
\<close>

definition amount_str :: "string \<Rightarrow> string" where
  "amount_str txt = replace (CHR '','') [] (replace (CHR ''$'') [] (strip txt))"

definition parse_amount :: "string \<Rightarrow> pyfloat" where
  "parse_amount txt =
     (case py_float (amount_str txt) of
        Some v \<Rightarrow> v
      | None \<Rightarrow> Finite 0)"

text \<open>
  One round of the loop over the member blocks. The state is the list \<^verbatim>\<open>members\<close>,
  the variable \<^verbatim>\<open>team_gifts\<close> and the lines printed so far.
  \<^verbatim>\<open>
      for block in member_blocks:
          try:
              name_el = block.find_element(...)
              amount_el = block.find_element(...)
              name = name_el.text.strip()
              ...
              if name.lower() == "team gifts":
                  team_gifts = amount
              else:
                  members.append({"full_name": name, "amount": amount,
                                  "team": team["team_name"]})
          except Exception as e:
              print(f"Skipping a block in {team['team_name']} due to: {e}")
              continue
  \<close>
\<close>

definition scrape_block ::
  "string \<Rightarrow> member_record list \<times> pyfloat \<times> diagnostic list \<Rightarrow> block
     \<Rightarrow> member_record list \<times> pyfloat \<times> diagnostic list" where
  "scrape_block tname st blk =
     (case st of (mems, gifts, out) \<Rightarrow>
        (case participant_name blk of
           None \<Rightarrow> (mems, gifts, out @ [Skipping_a_block tname])
         | Some name_txt \<Rightarrow>
             (case participant_raised blk of
                None \<Rightarrow> (mems, gifts, out @ [Skipping_a_block tname])
              | Some amount_txt \<Rightarrow>
                  (let name = strip name_txt;
                       amt = parse_amount amount_txt
                   in if lower name = ''team gifts'' then (mems, amt, out)
                      else (mems @ [\<lparr>full_name = name, amount = amt, team = tname\<rparr>],
                            gifts, out)))))"

text \<open>
  \<^verbatim>\<open>scrape_team_members(driver, team)\<close> on the page that \<^verbatim>\<open>driver.get\<close> has loaded.
  It writes the team's name into \<^verbatim>\<open>team\<close>; the model returns the updated team, the
  pair \<^verbatim>\<open>(members, team_gifts)\<close> and the lines printed.
\<close>

definition scrape_team_members ::
  "page \<Rightarrow> team_ref \<Rightarrow> team_ref \<times> (member_record list \<times> pyfloat) \<times> diagnostic list" where
  "scrape_team_members pg t =
     (let t' = t\<lparr>team_name := detail_team_name pg\<rparr>
      in if \<not> items_present pg
         then (t', ([], Finite 0), [Could_not_find_participant_blocks (team_name t')])
         else (case foldl (scrape_block (team_name t')) ([], Finite 0, [])
                      (member_blocks pg) of
                 (mems, gifts, out) \<Rightarrow> (t', (mems, gifts), out)))"

section \<open>The aggregation loop of \<^verbatim>\<open>main\<close>\<close>

text \<open>
  \<^verbatim>\<open>
      if t["team_name"] not in team_data:
          team_data[t["team_name"]] = {"members": [], "total": 0.0, "team_gifts": team_gifts}
      else:
          team_data[t["team_name"]]["team_gifts"] = team_gifts
  \<close>
  A new key goes to the end of the dictionary; an old key keeps its place.
\<close>

definition init_entry :: "string \<Rightarrow> pyfloat \<Rightarrow> team_dict \<Rightarrow> team_dict" where
  "init_entry tname gifts team_data =
     (if tname \<notin> fst ` set team_data
      then team_data @ [(tname, \<lparr>members = [], total_amt = Finite 0, team_gifts = gifts\<rparr>)]
      else AList.map_entry tname (\<lambda>d. d\<lparr>team_gifts := gifts\<rparr>) team_data)"

text \<open>
  \<^verbatim>\<open>
      for m in members:
          participant_data.append({"full_name": m["full_name"], "team": m["team"],
                                   "amount": m["amount"]})
          team_data[t["team_name"]]["members"].append(m["full_name"])
          team_data[t["team_name"]]["total"] += m["amount"]
  \<close>
\<close>

definition add_member ::
  "string \<Rightarrow> member_record list \<times> team_dict \<Rightarrow> member_record
     \<Rightarrow> member_record list \<times> team_dict" where
  "add_member tname st m =
     (case st of (participant_data, team_data) \<Rightarrow>
        (participant_data @ [\<lparr>full_name = full_name m, amount = amount m, team = team m\<rparr>],
         AList.map_entry tname
           (\<lambda>d. d\<lparr>members := members d @ [full_name m],
                   total_amt := fadd (total_amt d) (amount m)\<rparr>) team_data))"

text \<open>
  The body of the loop over the teams, after \<^verbatim>\<open>scrape_team_members\<close> has returned
  \<^verbatim>\<open>members, team_gifts\<close> for the team named \<open>tname\<close>. Its last statement is
  \<^verbatim>\<open>team_data[t["team_name"]]["total"] += team_gifts\<close>.
\<close>

definition aggregate_visit ::
  "member_record list \<times> team_dict \<Rightarrow> string \<times> member_record list \<times> pyfloat
     \<Rightarrow> member_record list \<times> team_dict" where
  "aggregate_visit st visit =
     (case (st, visit) of ((participant_data, team_data), (tname, mems, gifts)) \<Rightarrow>
        (case foldl (add_member tname) (participant_data, init_entry tname gifts team_data) mems of
           (participant_data', team_data') \<Rightarrow>
             (participant_data',
              AList.map_entry tname (\<lambda>d. d\<lparr>total_amt := fadd (total_amt d) gifts\<rparr>)
                team_data')))"

text \<open>The loop over a sequence of visits, from the empty list and the empty dictionary.\<close>

definition aggregate ::
  "(string \<times> member_record list \<times> pyfloat) list \<Rightarrow> member_record list \<times> team_dict" where
  "aggregate visits = foldl aggregate_visit ([], []) visits"



definition main_output :: "(string \<Rightarrow> page) \<Rightarrow> team_ref list \<Rightarrow> diagnostic list" where
  "main_output driver teams =
     concat (map (\<lambda>t. snd (snd (scrape_team_members (driver (team_link t)) t))) teams)"

section \<open>The report\<close>

text \<open>
  \<^verbatim>\<open>
      for part in participant_data:
          raffle_tix = calculate_tickets(part["amount"])
          participants_list.append({...})
  \<close>
  An exception of \<^verbatim>\<open>calculate_tickets\<close> is not caught: it ends the run.
\<close>

fun participants_list :: "member_record list \<Rightarrow> error + participant_row list" where
  "participants_list [] = Inr []"
| "participants_list (part # parts) =
     (case calculate_tickets (amount part) of
        Inl e \<Rightarrow> Inl e
      | Inr raffle_tix \<Rightarrow>
          (case participants_list parts of
             Inl e \<Rightarrow> Inl e
           | Inr rows \<Rightarrow>
               Inr (\<lparr>Full_Name = full_name part, Team = team part,
                      Amount_Raised = amount part, Attendance = [], Shirt_Size = [],
                      Raffle_Tickets = raffle_tix\<rparr> # rows)))"

text \<open>
  \<^verbatim>\<open>
      for team_name, data in team_data.items():
          raffle_tix = calculate_tickets(data["team_gifts"])
          members_str = ", ".join(data["members"])
          teams_list.append({...})
  \<close>
\<close>

fun teams_list :: "team_dict \<Rightarrow> error + team_row list" where
  "teams_list [] = Inr []"
| "teams_list ((tname, data) # rest) =
     (case calculate_tickets (team_gifts data) of
        Inl e \<Rightarrow> Inl e
      | Inr raffle_tix \<Rightarrow>
          (case teams_list rest of
             Inl e \<Rightarrow> Inl e
           | Inr rows \<Rightarrow>
               Inr (\<lparr>Team_Name = tname, Members = join '', '' (members data),
                      Team_Gifts = team_gifts data, Total_Raised = total_amt data,
                      Team_Raffle_Tickets = raffle_tix, Camera_Collected = []\<rparr> # rows)))"

text \<open>The two tables, participants first: what \<^verbatim>\<open>main\<close> hands to the Excel writer.\<close>

definition build_report ::
  "member_record list \<times> team_dict \<Rightarrow> error + participant_row list \<times> team_row list" where
  "build_report st =
     (case st of (participant_data, team_data) \<Rightarrow>
        (case participants_list participant_data of
           Inl e \<Rightarrow> Inl e
         | Inr prows \<Rightarrow>
             (case teams_list team_data of
                Inl e \<Rightarrow> Inl e
              | Inr trows \<Rightarrow> Inr (prows, trows))))"


section \<open>Notions of the specification\<close>

text \<open>
  The definitions of this section follow the words of the specification, not the code:
  they are what the code is compared with. \<open>py_sum\<close> is Python's \<^verbatim>\<open>sum\<close>, adding from
  the left. For a team name and a sequence of visits, \<open>visits_named\<close> are the visits
  of that name, \<open>folded_members\<close> the member records of these visits in order,
  \<open>visit_gifts\<close> their team gifts, and \<open>contributions\<close> the amounts in the order in
  which the loop adds them to the team's total.
\<close>

definition py_sum :: "pyfloat list \<Rightarrow> pyfloat" where
  "py_sum xs = foldl fadd (Finite 0) xs"

definition visits_named ::
  "string \<Rightarrow> (string \<times> member_record list \<times> pyfloat) list
     \<Rightarrow> (string \<times> member_record list \<times> pyfloat) list" where
  "visits_named k visits = filter (\<lambda>v. fst v = k) visits"

definition folded_members ::
  "string \<Rightarrow> (string \<times> member_record list \<times> pyfloat) list \<Rightarrow> member_record list" where
  "folded_members k visits = concat (map (\<lambda>v. fst (snd v)) (visits_named k visits))"

definition visit_gifts ::
  "string \<Rightarrow> (string \<times> member_record list \<times> pyfloat) list \<Rightarrow> pyfloat list" where
  "visit_gifts k visits = map (\<lambda>v. snd (snd v)) (visits_named k visits)"

definition contributions ::
  "string \<Rightarrow> (string \<times> member_record list \<times> pyfloat) list \<Rightarrow> pyfloat list" where
  "contributions k visits =
     concat (map (\<lambda>v. map amount (fst (snd v)) @ [snd (snd v)]) (visits_named k visits))"

text \<open>
  A member block that can be read gives a trimmed name and an amount; a name is the
  team gifts label when it equals \<^verbatim>\<open>team gifts\<close> up to letter case. An amount is
  non-negative when it is a finite number from zero on or plus infinity.
\<close>

definition spec_read_block :: "block \<Rightarrow> (string \<times> pyfloat) option" where
  "spec_read_block blk =
     (case participant_name blk of
        None \<Rightarrow> None
      | Some name_txt \<Rightarrow>
          (case participant_raised blk of
             None \<Rightarrow> None
           | Some amount_txt \<Rightarrow> Some (strip name_txt, parse_amount amount_txt)))"

definition spec_is_team_gifts :: "string \<Rightarrow> bool" where
  "spec_is_team_gifts name = (lower name = lower ''Team Gifts'')"

text \<open>
  The readable blocks of a page, as trimmed name and amount: the blocks that the loop
  goes through are those of the page when the wait for them returns, and none otherwise.
\<close>

definition spec_readable_blocks :: "page \<Rightarrow> (string \<times> pyfloat) list" where
  "spec_readable_blocks pg =
     List.map_filter spec_read_block (if items_present pg then member_blocks pg else [])"


section \<open>Example pages\<close>






section \<open>Evaluating the float and string operations\<close>

lemmas round_defs = round64_def pow2_def round_half_even_def binade.simps Let_def

lemmas string_defs = strip_def is_space_def lower_def lower_char_def replace_def

lemmas float_defs = py_float_def transform_space_to_ascii_def float_from_string_inner_def
  c_isspace_def parse_sign_def parse_inf_or_nan_def lower_def lower_char_def parse_number_def
  is_digit_def parse_exponent_def scale10_def digits_val_def digit_val_def to_double_def
  is_space_def round_defs


section \<open>The ticket calculator\<close>

text \<open>
  Claim C1, as amended. On every finite amount \<open>a\<close>, \<open>calculate_tickets\<close> returns 0
  when \<open>a < 30\<close> and otherwise \<open>min (\<lfloor>(a - 30) / 20\<rfloor> + 1) 50\<close>; on minus infinity,
  which is below 30 as well, it returns 0. In particular the amounts 30, 49.999, 50,
  1030 and 10000 give 1, 1, 2, 50 and 50 tickets.
\<close>

theorem calculate_tickets_spec:
  "calculate_tickets (Finite a) =
     Inr (if a < 30 then 0 else min (\<lfloor>(a - 30) / 20\<rfloor> + 1) 50) \<and>
   calculate_tickets NegInf = Inr 0 \<and>
   calculate_tickets (Finite 30) = Inr 1 \<and>
   calculate_tickets (Finite 49.999) = Inr 1 \<and>
   calculate_tickets (Finite 50) = Inr 2 \<and>
   calculate_tickets (Finite 1030) = Inr 50 \<and>
   calculate_tickets (Finite 10000) = Inr 50"
  by (simp add: calculate_tickets_def Let_def)

text \<open>
  The claim as stated, for every amount, fails on the two amounts that are neither
  finite nor below 30. The amount texts \<^verbatim>\<open>nan\<close> and \<^verbatim>\<open>inf\<close> parse to \<^verbatim>\<open>nan\<close> and to
  plus infinity; on these the comparison with 30 is false and \<^verbatim>\<open>math.floor\<close> raises,
  so \<open>calculate_tickets\<close> returns nothing.
\<close>

theorem calculate_tickets_spec_counterexample:
  "parse_amount ''nan'' = NaN \<and> calculate_tickets NaN = Inl ValueError \<and>
   parse_amount ''inf'' = PosInf \<and> calculate_tickets PosInf = Inl OverflowError"
  by (simp add: calculate_tickets_def parse_amount_def amount_str_def py_float_def
      transform_space_to_ascii_def float_from_string_inner_def c_isspace_def parse_sign_def
      parse_inf_or_nan_def string_defs)

text \<open>
  Claim C10. On every finite amount \<open>calculate_tickets\<close> returns, without raising, an
  integer from 0 to 50.
\<close>

theorem calculate_tickets_range:
  "\<exists>n. calculate_tickets (Finite a) = Inr n \<and> 0 \<le> n \<and> n \<le> 50"
  by (simp add: calculate_tickets_def Let_def)

section \<open>Scraping a detail page\<close>

lemma amount_example: "parse_amount ''$1,234.50'' = Finite 1234.5"
  by (simp add: parse_amount_def amount_str_def strip_def replace_def float_defs)

lemma amount_na: "py_float (amount_str ''N/A'') = None"
  by (simp add: amount_str_def strip_def replace_def float_defs)

text \<open>
  Claim C4. The amount of a member block is what \<^verbatim>\<open>float\<close> gives for the trimmed
  text without dollar signs and commas, so that \<^verbatim>\<open>$1,234.50\<close> is exactly 1234.50; when
  \<^verbatim>\<open>float\<close> raises, the amount is 0.0 and the block is kept: it yields a member
  record with that amount (or, under the team gifts label, the team gifts 0.0).
\<close>

theorem parse_amount_spec:
  "parse_amount ''$1,234.50'' = Finite 1234.5 \<and>
   parse_amount txt =
     (case py_float (replace (CHR '','') [] (replace (CHR ''$'') [] (strip txt))) of
        Some v \<Rightarrow> v | None \<Rightarrow> Finite 0) \<and>
   (py_float (amount_str txt) = None \<longrightarrow>
      parse_amount txt = Finite 0 \<and>
      scrape_block tname (mems, gifts, out)
          \<lparr>participant_name = Some name_txt, participant_raised = Some txt\<rparr> =
        (if lower (strip name_txt) = ''team gifts'' then (mems, Finite 0, out)
         else (mems @ [\<lparr>full_name = strip name_txt, amount = Finite 0, team = tname\<rparr>],
               gifts, out)))"
  by (simp add: amount_example) (simp add: parse_amount_def amount_str_def scrape_block_def)

theorem parse_amount_spec_witness:
  "py_float (amount_str ''N/A'') = None \<and>
   parse_amount ''N/A'' = Finite 0 \<and>
   scrape_block ''Alpha'' ([], Finite 0, [])
       \<lparr>participant_name = Some ''Carol'', participant_raised = Some ''N/A''\<rparr> =
     ([\<lparr>full_name = ''Carol'', amount = Finite 0, team = ''Alpha''\<rparr>], Finite 0, [])"
proof -
  have h: "py_float (amount_str ''N/A'') = None"
    by (rule amount_na)
  from parse_amount_spec [of "''N/A''" "''Alpha''" "[]" "Finite 0" "[]" "''Carol''"] h
  have "parse_amount ''N/A'' = Finite 0 \<and>
      scrape_block ''Alpha'' ([], Finite 0, [])
          \<lparr>participant_name = Some ''Carol'', participant_raised = Some ''N/A''\<rparr> =
        (if lower (strip ''Carol'') = ''team gifts'' then ([], Finite 0, [])
         else ([] @ [\<lparr>full_name = strip ''Carol'', amount = Finite 0, team = ''Alpha''\<rparr>],
               Finite 0, []))"
    by blast
  then show ?thesis
    using h by (simp add: lower_def lower_char_def strip_def is_space_def)
qed

text \<open>
  Claim C6. The team name is the trimmed text of the primary header when the wait for
  it returns; otherwise the trimmed text of the secondary header when that is found;
  otherwise the literal \<^verbatim>\<open>Unknown Team\<close>. \<open>scrape_team_members\<close> has no failing branch:
  it returns on every page.
\<close>

theorem team_name_chain:
  "team_name (fst (scrape_team_members pg t)) =
     (case user_info_h2 pg of
        Some txt \<Rightarrow> strip txt
      | None \<Rightarrow> (case personal_header pg of Some txt \<Rightarrow> strip txt | None \<Rightarrow> ''Unknown Team''))"
  by (simp add: scrape_team_members_def detail_team_name_def Let_def split: prod.splits)

section \<open>The aggregation loop\<close>

lemma member_copy: "\<lparr>full_name = full_name m, amount = amount m, team = team m\<rparr> = m"
  by (cases m) simp

lemma add_member_pair:
  "add_member n (pd, td) m =
     (pd @ [m],
      AList.map_entry n
        (\<lambda>d. d\<lparr>members := members d @ [full_name m],
                total_amt := fadd (total_amt d) (amount m)\<rparr>) td)"
  by (simp add: add_member_def member_copy)

lemma foldl_add_member_fst: "fst (foldl (add_member n) (pd, td) ms) = pd @ ms"
  by (induction ms arbitrary: pd td) (simp_all add: add_member_pair)

lemma map_entry_keys: "map fst (AList.map_entry n f td) = map fst td"
  by (induction td) auto

lemma foldl_add_member_lookup:
  "map_of (snd (foldl (add_member n) (pd, td) ms)) =
     (map_of td)(n := map_option
        (\<lambda>d. d\<lparr>members := members d @ map full_name ms,
                total_amt := foldl fadd (total_amt d) (map amount ms)\<rparr>) (map_of td n))"
proof (induction ms arbitrary: pd td)
  case Nil
  show ?case by (cases "map_of td n") (auto simp: fun_eq_iff)
next
  case (Cons m ms)
  show ?case
    by (simp add: add_member_pair Cons.IH map_of_map_entry fun_eq_iff split: option.splits)
qed

lemma foldl_add_member_keys: "map fst (snd (foldl (add_member n) (pd, td) ms)) = map fst td"
proof (induction ms arbitrary: pd td)
  case Nil
  show ?case by simp
next
  case (Cons m ms)
  show ?case by (simp add: add_member_pair Cons.IH map_entry_keys)
qed

lemma init_entry_lookup:
  "map_of (init_entry n g td) =
     (map_of td)(n \<mapsto> (case map_of td n of
                         None \<Rightarrow> \<lparr>members = [], total_amt = Finite 0, team_gifts = g\<rparr>
                       | Some d \<Rightarrow> d\<lparr>team_gifts := g\<rparr>))"
proof (cases "map_of td n")
  case None
  then have "n \<notin> fst ` set td" by (simp add: map_of_eq_None_iff)
  then show ?thesis using None
    by (auto simp: init_entry_def fun_eq_iff map_add_def split: option.splits)
next
  case (Some d)
  then have "n \<in> fst ` set td" by (metis map_of_eq_None_iff option.distinct(1))
  then show ?thesis using Some
    by (auto simp: init_entry_def map_of_map_entry fun_eq_iff)
qed

lemma init_entry_keys:
  "map fst (init_entry n g td) = (if n \<in> fst ` set td then map fst td else map fst td @ [n])"
  by (simp add: init_entry_def map_entry_keys)

lemma aggregate_visit_pair:
  "aggregate_visit (pd, td) (n, ms, g) =
     (pd @ ms,
      AList.map_entry n (\<lambda>d. d\<lparr>total_amt := fadd (total_amt d) g\<rparr>)
        (snd (foldl (add_member n) (pd, init_entry n g td) ms)))"
proof -
  obtain pd' td' where r: "foldl (add_member n) (pd, init_entry n g td) ms = (pd', td')"
    by (cases "foldl (add_member n) (pd, init_entry n g td) ms") auto
  from foldl_add_member_fst [of n pd "init_entry n g td" ms] r have "pd' = pd @ ms"
    by simp
  then show ?thesis by (simp add: aggregate_visit_def r)
qed

lemma aggregate_visit_lookup:
  "map_of (snd (aggregate_visit (pd, td) (n, ms, g))) k =
     (if k = n then
        Some (case map_of td n of
                None \<Rightarrow> \<lparr>members = map full_name ms,
                          total_amt = fadd (foldl fadd (Finite 0) (map amount ms)) g,
                          team_gifts = g\<rparr>
              | Some d \<Rightarrow> \<lparr>members = members d @ map full_name ms,
                            total_amt = fadd (foldl fadd (total_amt d) (map amount ms)) g,
                            team_gifts = g\<rparr>)
      else map_of td k)"
  by (simp add: aggregate_visit_pair map_of_map_entry foldl_add_member_lookup init_entry_lookup
      split: option.splits)

lemma aggregate_visit_keys:
  "map fst (snd (aggregate_visit (pd, td) (n, ms, g))) =
     (if n \<in> fst ` set td then map fst td else map fst td @ [n])"
  by (simp add: aggregate_visit_pair map_entry_keys foldl_add_member_keys init_entry_keys)

lemma aggregate_snoc: "aggregate (vs @ [v]) = aggregate_visit (aggregate vs) v"
  by (simp add: aggregate_def)


lemma aggregate_keys: "distinct (map fst (snd (aggregate visits)))"
proof (induction visits rule: rev_induct)
  case Nil
  show ?case by (simp add: aggregate_def)
next
  case (snoc v vs)
  obtain n ms g where v: "v = (n, ms, g)" by (cases v) auto
  obtain pd td where a: "aggregate vs = (pd, td)" by (cases "aggregate vs") auto
  show ?case using snoc by (simp add: aggregate_snoc v a aggregate_visit_keys)
qed

lemma aggregate_lookup:
  "map_of (snd (aggregate visits)) k =
     (if visits_named k visits = [] then None
      else Some \<lparr>members = map full_name (folded_members k visits),
                 total_amt = foldl fadd (Finite 0) (contributions k visits),
                 team_gifts = last (visit_gifts k visits)\<rparr>)"
proof (induction visits rule: rev_induct)
  case Nil
  show ?case by (simp add: aggregate_def visits_named_def)
next
  case (snoc v vs)
  obtain n ms g where v: "v = (n, ms, g)" by (cases v) auto
  obtain pd td where a: "aggregate vs = (pd, td)" by (cases "aggregate vs") auto
  from snoc a have ih: "map_of td k =
     (if visits_named k vs = [] then None
      else Some \<lparr>members = map full_name (folded_members k vs),
                 total_amt = foldl fadd (Finite 0) (contributions k vs),
                 team_gifts = last (visit_gifts k vs)\<rparr>)" by simp
  show ?case
  proof (cases "k = n")
    case True
    with ih show ?thesis
      by (simp add: aggregate_snoc v a aggregate_visit_lookup visits_named_def
          folded_members_def contributions_def visit_gifts_def)
  next
    case False
    with ih show ?thesis
      by (simp add: aggregate_snoc v a aggregate_visit_lookup visits_named_def
          folded_members_def contributions_def visit_gifts_def)
  qed
qed

text \<open>
  Claim C2, as amended. After the loop, the total of every entry of \<^verbatim>\<open>team_data\<close> is
  the float that comes from adding to 0.0, in the order of the visits of that name, the
  amounts of the visit's member records and then the visit's team gifts; its
  \<open>team_gifts\<close> field is the team gifts of the last such visit. When the name was
  visited once, the total is the sum of the members' amounts, added from the left, plus
  the \<open>team_gifts\<close> field, and unless it is \<^verbatim>\<open>nan\<close> it compares equal to that in
  Python.
\<close>

theorem aggregate_total:
  "(k, d) \<in> set (snd (aggregate visits)) \<Longrightarrow>
   total_amt d = py_sum (contributions k visits) \<and>
   team_gifts d = last (visit_gifts k visits) \<and>
   (length (visits_named k visits) = 1 \<longrightarrow>
      total_amt d = fadd (py_sum (map amount (folded_members k visits))) (team_gifts d) \<and>
      (total_amt d \<noteq> NaN \<longrightarrow>
         feq (total_amt d)
           (fadd (py_sum (map amount (folded_members k visits))) (team_gifts d))))"
proof -
  assume "(k, d) \<in> set (snd (aggregate visits))"
  then have "map_of (snd (aggregate visits)) k = Some d"
    using aggregate_keys [of visits] by simp
  then have d: "d = \<lparr>members = map full_name (folded_members k visits),
            total_amt = foldl fadd (Finite 0) (contributions k visits),
            team_gifts = last (visit_gifts k visits)\<rparr>"
    by (auto simp: aggregate_lookup split: if_splits)
  have t: "total_amt d = py_sum (contributions k visits)"
    using d by (simp add: py_sum_def)
  have g: "team_gifts d = last (visit_gifts k visits)"
    using d by simp
  have o: "total_amt d = fadd (py_sum (map amount (folded_members k visits))) (team_gifts d)"
    if "length (visits_named k visits) = 1"
  proof -
    from that obtain v where "visits_named k visits = [v]"
      by (cases "visits_named k visits") auto
    with d show ?thesis
      by (simp add: contributions_def folded_members_def visit_gifts_def py_sum_def)
  qed
  have "feq x x" if "x \<noteq> NaN" for x
    using that by (cases x) simp_all
  with t g o show ?thesis by auto
qed

theorem aggregate_total_witness:
  "(''A'', \<lparr>members = [''Alice''], total_amt = Finite 105, team_gifts = Finite 60\<rparr>)
     \<in> set (snd (aggregate
         [(''A'', [\<lparr>full_name = ''Alice'', amount = Finite 45, team = ''A''\<rparr>], Finite 60)])) \<and>
   length (visits_named ''A''
         [(''A'', [\<lparr>full_name = ''Alice'', amount = Finite 45, team = ''A''\<rparr>], Finite 60)]) = 1 \<and>
   Finite 105 \<noteq> NaN \<and>
   feq (Finite 105) (fadd (py_sum (map amount (folded_members ''A''
         [(''A'', [\<lparr>full_name = ''Alice'', amount = Finite 45, team = ''A''\<rparr>], Finite 60)])))
       (Finite 60))"
proof -
  have m: "(''A'', \<lparr>members = [''Alice''], total_amt = Finite 105, team_gifts = Finite 60\<rparr>)
     \<in> set (snd (aggregate
         [(''A'', [\<lparr>full_name = ''Alice'', amount = Finite 45, team = ''A''\<rparr>], Finite 60)]))"
    by (simp add: aggregate_def aggregate_visit_def init_entry_def add_member_def round_defs)
  have l: "length (visits_named ''A''
         [(''A'', [\<lparr>full_name = ''Alice'', amount = Finite 45, team = ''A''\<rparr>], Finite 60)]) = 1"
    by (simp add: visits_named_def)
  have n: "Finite 105 \<noteq> NaN" by simp
  from aggregate_total [OF m] l
  have "total_amt \<lparr>members = [''Alice''], total_amt = Finite 105, team_gifts = Finite 60\<rparr>
        \<noteq> NaN \<longrightarrow>
      feq (total_amt \<lparr>members = [''Alice''], total_amt = Finite 105, team_gifts = Finite 60\<rparr>)
      (fadd (py_sum (map amount (folded_members ''A''
         [(''A'', [\<lparr>full_name = ''Alice'', amount = Finite 45, team = ''A''\<rparr>], Finite 60)])))
       (team_gifts \<lparr>members = [''Alice''], total_amt = Finite 105, team_gifts = Finite 60\<rparr>))"
    by blast
  then have e: "feq (Finite 105) (fadd (py_sum (map amount (folded_members ''A''
         [(''A'', [\<lparr>full_name = ''Alice'', amount = Finite 45, team = ''A''\<rparr>], Finite 60)])))
       (Finite 60))"
    by simp
  from m l n e show ?thesis by (intro conjI)
qed

text \<open>
  The claim as stated fails when a name is visited twice: after the visits of team A
  with Alice (45) and team gifts 60, then again A with Bob (10) and team gifts 5, the
  total is 120, while the members' sum plus the \<open>team_gifts\<close> field is 60.
\<close>

theorem aggregate_total_counterexample:
  "snd (aggregate
     [(''A'', [\<lparr>full_name = ''Alice'', amount = Finite 45, team = ''A''\<rparr>], Finite 60),
      (''A'', [\<lparr>full_name = ''Bob'', amount = Finite 10, team = ''A''\<rparr>], Finite 5)]) =
     [(''A'', \<lparr>members = [''Alice'', ''Bob''], total_amt = Finite 120,
               team_gifts = Finite 5\<rparr>)] \<and>
   fadd (py_sum (map amount (folded_members ''A''
     [(''A'', [\<lparr>full_name = ''Alice'', amount = Finite 45, team = ''A''\<rparr>], Finite 60),
      (''A'', [\<lparr>full_name = ''Bob'', amount = Finite 10, team = ''A''\<rparr>], Finite 5)])))
     (Finite 5) = Finite 60"
  by (simp add: aggregate_def aggregate_visit_def init_entry_def add_member_def
      folded_members_def visits_named_def py_sum_def round_defs)

text \<open>
  The total is stated in the order of the loop because binary64 addition depends on
  it. Two visits of one name with the member amounts 25.10 and 5.30 and the team gifts
  10.20 and 19.99 give the total 60.58999999999999, while the sum of the members'
  amounts plus the sum of the team gifts is 60.59.
\<close>

lemma total_in_visit_order:
  "map (\<lambda>e. total_amt (snd e))
     (snd (aggregate
       [(''A'', [\<lparr>full_name = ''Alice'', amount = parse_amount ''$25.10'', team = ''A''\<rparr>],
         parse_amount ''$10.20''),
        (''A'', [\<lparr>full_name = ''Bob'', amount = parse_amount ''$5.30'', team = ''A''\<rparr>],
         parse_amount ''$19.99'')])) =
     [Finite (4263642209724661 / 70368744177664)] \<and>
   fadd (py_sum [parse_amount ''$25.10'', parse_amount ''$5.30''])
        (py_sum [parse_amount ''$10.20'', parse_amount ''$19.99'']) =
     Finite (2131821104862331 / 35184372088832)"
proof -
  have a: "parse_amount ''$25.10'' = Finite (3532510957718733 / 140737488355328)"
      "parse_amount ''$10.20'' = Finite (2871044762448691 / 281474976710656)"
      "parse_amount ''$5.30'' = Finite (5967269506265907 / 1125899906842624)"
      "parse_amount ''$19.99'' = Finite (5626684784446013 / 281474976710656)"
    by (simp_all add: parse_amount_def amount_str_def float_defs string_defs)
  show ?thesis
    by (simp add: a aggregate_def aggregate_visit_def init_entry_def add_member_def py_sum_def
        round_defs)
qed

text \<open>
  Claim C3. A visit of the name \<open>n\<close> with the members \<open>ms\<close> and the team gifts \<open>g\<close>
  starts, on first sight of \<open>n\<close>, from the entry with no members, total 0 and team
  gifts \<open>g\<close>, and on a repeat sight from the old entry with its team gifts overwritten
  by \<open>g\<close>; it appends the members' names, adds their amounts to the total and then adds
  \<open>g\<close> once. The name is seen for the first time exactly when no earlier visit has it,
  and the entries of the other names stay as they are.
\<close>

theorem aggregate_visit_rule:
  "map_of (snd (aggregate (vs @ [(n, ms, g)]))) n =
     Some (let d0 = (case map_of (snd (aggregate vs)) n of
                       None \<Rightarrow> \<lparr>members = [], total_amt = Finite 0, team_gifts = g\<rparr>
                     | Some d \<Rightarrow> d\<lparr>team_gifts := g\<rparr>)
           in d0\<lparr>members := members d0 @ map full_name ms,
                 total_amt := fadd (foldl fadd (total_amt d0) (map amount ms)) g\<rparr>) \<and>
   (map_of (snd (aggregate vs)) n = None) = (n \<notin> fst ` set vs) \<and>
   (k \<noteq> n \<longrightarrow> map_of (snd (aggregate (vs @ [(n, ms, g)]))) k = map_of (snd (aggregate vs)) k)"
proof -
  obtain pd td where a: "aggregate vs = (pd, td)" by (cases "aggregate vs") auto
  have p1: "map_of (snd (aggregate (vs @ [(n, ms, g)]))) n =
     Some (let d0 = (case map_of (snd (aggregate vs)) n of
                       None \<Rightarrow> \<lparr>members = [], total_amt = Finite 0, team_gifts = g\<rparr>
                     | Some d \<Rightarrow> d\<lparr>team_gifts := g\<rparr>)
           in d0\<lparr>members := members d0 @ map full_name ms,
                 total_amt := fadd (foldl fadd (total_amt d0) (map amount ms)) g\<rparr>)"
    by (simp add: aggregate_snoc a aggregate_visit_lookup split: option.splits)
  have p2: "(map_of (snd (aggregate vs)) n = None) = (n \<notin> fst ` set vs)"
    by (auto simp: aggregate_lookup visits_named_def filter_empty_conv)
  have p3: "k \<noteq> n \<longrightarrow>
      map_of (snd (aggregate (vs @ [(n, ms, g)]))) k = map_of (snd (aggregate vs)) k"
    by (simp add: aggregate_snoc a aggregate_visit_lookup)
  from p1 p2 p3 show ?thesis by (intro conjI)
qed

theorem aggregate_visit_rule_witness:
  "map_of (snd (aggregate
       ([(''A'', [\<lparr>full_name = ''Alice'', amount = Finite 45, team = ''A''\<rparr>], Finite 60)] @
        [(''A'', [\<lparr>full_name = ''Bob'', amount = Finite 10, team = ''A''\<rparr>], Finite 5)])))
     ''A'' =
     Some \<lparr>members = [''Alice'', ''Bob''], total_amt = Finite 120, team_gifts = Finite 5\<rparr> \<and>
   ''B'' \<noteq> ''A'' \<and>
   map_of (snd (aggregate
       ([(''A'', [\<lparr>full_name = ''Alice'', amount = Finite 45, team = ''A''\<rparr>], Finite 60)] @
        [(''A'', [\<lparr>full_name = ''Bob'', amount = Finite 10, team = ''A''\<rparr>], Finite 5)])))
     ''B'' = None"
proof -
  have a: "aggregate
      [(''A'', [\<lparr>full_name = ''Alice'', amount = Finite 45, team = ''A''\<rparr>], Finite 60)] =
      ([\<lparr>full_name = ''Alice'', amount = Finite 45, team = ''A''\<rparr>],
       [(''A'', \<lparr>members = [''Alice''], total_amt = Finite 105, team_gifts = Finite 60\<rparr>)])"
    by (simp add: aggregate_def aggregate_visit_def init_entry_def add_member_def round_defs)
  have b: "''B'' \<noteq> ''A''" by simp
  from aggregate_visit_rule
    [of "[(''A'', [\<lparr>full_name = ''Alice'', amount = Finite 45, team = ''A''\<rparr>], Finite 60)]"
        "''A''" "[\<lparr>full_name = ''Bob'', amount = Finite 10, team = ''A''\<rparr>]" "Finite 5" "''B''"]
  show ?thesis by (simp add: a round_defs)
qed

section \<open>The report\<close>

lemma participants_list_rows:
  "participants_list parts = Inr rows \<Longrightarrow>
   list_all2 (\<lambda>part r. calculate_tickets (amount part) = Inr (Raffle_Tickets r) \<and>
                Full_Name r = full_name part \<and> Team r = team part \<and>
                Amount_Raised r = amount part \<and> Attendance r = [] \<and> Shirt_Size r = [])
     parts rows"
proof (induction parts arbitrary: rows)
  case Nil
  then show ?case by simp
next
  case (Cons part parts)
  then show ?case by (auto split: sum.splits)
qed

lemma teams_list_rows:
  "teams_list td = Inr rows \<Longrightarrow>
   list_all2 (\<lambda>e r. calculate_tickets (team_gifts (snd e)) = Inr (Team_Raffle_Tickets r) \<and>
                Team_Name r = fst e \<and> Members r = join '', '' (members (snd e)) \<and>
                Team_Gifts r = team_gifts (snd e) \<and> Total_Raised r = total_amt (snd e) \<and>
                Camera_Collected r = [])
     td rows"
proof (induction td arbitrary: rows)
  case Nil
  then show ?case by simp
next
  case (Cons e td)
  obtain k d where e: "e = (k, d)" by (cases e) auto
  from Cons show ?case by (auto simp: e split: sum.splits)
qed

lemmas run_defs = aggregate_def aggregate_visit_def init_entry_def add_member_def
  build_report_def calculate_tickets_def round_defs

text \<open>
  Claim C8. When the report is built, the rows stand in the order of the participant
  entries and of the dictionary; every participant row has the ticket count that
  \<open>calculate_tickets\<close> returns for that participant's own amount, and every team row
  the one it returns for the team's \<open>team_gifts\<close> field, whatever the total is.
\<close>

theorem report_tickets:
  "build_report (participant_data, team_data) = Inr (prows, trows) \<Longrightarrow>
   list_all2 (\<lambda>part r. Amount_Raised r = amount part \<and>
                calculate_tickets (amount part) = Inr (Raffle_Tickets r))
     participant_data prows \<and>
   list_all2 (\<lambda>e r. Team_Name r = fst e \<and> Team_Gifts r = team_gifts (snd e) \<and>
                Total_Raised r = total_amt (snd e) \<and>
                calculate_tickets (team_gifts (snd e)) = Inr (Team_Raffle_Tickets r))
     team_data trows"
proof -
  assume b: "build_report (participant_data, team_data) = Inr (prows, trows)"
  then have p: "participants_list participant_data = Inr prows"
    and t: "teams_list team_data = Inr trows"
    by (auto simp: build_report_def split: sum.splits)
  from participants_list_rows [OF p]
  have "list_all2 (\<lambda>part r. Amount_Raised r = amount part \<and>
                calculate_tickets (amount part) = Inr (Raffle_Tickets r))
     participant_data prows"
    by (rule list_all2_mono) simp
  moreover from teams_list_rows [OF t]
  have "list_all2 (\<lambda>e r. Team_Name r = fst e \<and> Team_Gifts r = team_gifts (snd e) \<and>
                Total_Raised r = total_amt (snd e) \<and>
                calculate_tickets (team_gifts (snd e)) = Inr (Team_Raffle_Tickets r))
     team_data trows"
    by (rule list_all2_mono) simp
  ultimately show ?thesis by simp
qed


theorem report_tickets_witness:
  "build_report
     ([\<lparr>full_name = ''Alice'', amount = Finite 45, team = ''Alpha''\<rparr>,
       \<lparr>full_name = ''Bob'', amount = Finite 10, team = ''Alpha''\<rparr>],
      [(''Alpha'', \<lparr>members = [''Alice'', ''Bob''], total_amt = Finite 115,
                     team_gifts = Finite 60\<rparr>)]) =
     Inr ([\<lparr>Full_Name = ''Alice'', Team = ''Alpha'', Amount_Raised = Finite 45,
             Attendance = [], Shirt_Size = [], Raffle_Tickets = 1\<rparr>,
           \<lparr>Full_Name = ''Bob'', Team = ''Alpha'', Amount_Raised = Finite 10,
             Attendance = [], Shirt_Size = [], Raffle_Tickets = 0\<rparr>],
          [\<lparr>Team_Name = ''Alpha'', Members = ''Alice, Bob'', Team_Gifts = Finite 60,
             Total_Raised = Finite 115, Team_Raffle_Tickets = 2, Camera_Collected = []\<rparr>]) \<and>
   calculate_tickets (Finite 45) = Inr 1 \<and> calculate_tickets (Finite 10) = Inr 0 \<and>
   calculate_tickets (Finite 60) = Inr 2 \<and> calculate_tickets (Finite 115) = Inr 5"
proof -
  have b: "build_report
     ([\<lparr>full_name = ''Alice'', amount = Finite 45, team = ''Alpha''\<rparr>,
       \<lparr>full_name = ''Bob'', amount = Finite 10, team = ''Alpha''\<rparr>],
      [(''Alpha'', \<lparr>members = [''Alice'', ''Bob''], total_amt = Finite 115,
                     team_gifts = Finite 60\<rparr>)]) =
     Inr ([\<lparr>Full_Name = ''Alice'', Team = ''Alpha'', Amount_Raised = Finite 45,
             Attendance = [], Shirt_Size = [], Raffle_Tickets = 1\<rparr>,
           \<lparr>Full_Name = ''Bob'', Team = ''Alpha'', Amount_Raised = Finite 10,
             Attendance = [], Shirt_Size = [], Raffle_Tickets = 0\<rparr>],
          [\<lparr>Team_Name = ''Alpha'', Members = ''Alice, Bob'', Team_Gifts = Finite 60,
             Total_Raised = Finite 115, Team_Raffle_Tickets = 2, Camera_Collected = []\<rparr>])"
    by (simp add: run_defs)
  have c: "calculate_tickets (Finite 115) = Inr 5"
    by (simp add: run_defs)
  from report_tickets [OF b] b c show ?thesis by simp
qed

section \<open>The member blocks of a detail page\<close>

lemma spec_is_team_gifts_lower: "spec_is_team_gifts name = (lower name = ''team gifts'')"
  by (simp add: spec_is_team_gifts_def lower_def lower_char_def)

lemma scrape_block_read:
  "scrape_block tn (mems, gifts, out) blk =
     (case spec_read_block blk of
        None \<Rightarrow> (mems, gifts, out @ [Skipping_a_block tn])
      | Some e \<Rightarrow>
          if spec_is_team_gifts (fst e) then (mems, snd e, out)
          else (mems @ [\<lparr>full_name = fst e, amount = snd e, team = tn\<rparr>], gifts, out))"
  by (simp add: scrape_block_def spec_read_block_def spec_is_team_gifts_lower Let_def
      split: option.splits)

lemma foldl_scrape_block:
  "foldl (scrape_block tn) (mems, gifts, out) bs = (mems', gifts', out') \<Longrightarrow>
   mems' = mems @ map (\<lambda>e. \<lparr>full_name = fst e, amount = snd e, team = tn\<rparr>)
                    (filter (\<lambda>e. \<not> spec_is_team_gifts (fst e))
                       (List.map_filter spec_read_block bs)) \<and>
   gifts' = (if filter (\<lambda>e. spec_is_team_gifts (fst e)) (List.map_filter spec_read_block bs) = []
             then gifts
             else snd (last (filter (\<lambda>e. spec_is_team_gifts (fst e))
                               (List.map_filter spec_read_block bs))))"
proof (induction bs arbitrary: mems gifts out)
  case Nil
  then show ?case by (simp add: map_filter_simps)
next
  case (Cons b bs)
  show ?case
  proof (cases "spec_read_block b")
    case None
    with Cons.prems have "foldl (scrape_block tn) (mems, gifts, out @ [Skipping_a_block tn]) bs =
        (mems', gifts', out')"
      by (simp add: scrape_block_read)
    from Cons.IH [OF this] None show ?thesis by (simp add: map_filter_simps)
  next
    case (Some e)
    show ?thesis
    proof (cases "spec_is_team_gifts (fst e)")
      case True
      with Cons.prems Some have "foldl (scrape_block tn) (mems, snd e, out) bs =
          (mems', gifts', out')"
        by (simp add: scrape_block_read)
      from Cons.IH [OF this] Some True show ?thesis by (simp add: map_filter_simps)
    next
      case False
      with Cons.prems Some
      have "foldl (scrape_block tn)
              (mems @ [\<lparr>full_name = fst e, amount = snd e, team = tn\<rparr>], gifts, out) bs =
          (mems', gifts', out')"
        by (simp add: scrape_block_read)
      from Cons.IH [OF this] Some False show ?thesis by (simp add: map_filter_simps)
    qed
  qed
qed

text \<open>
  Claim C5. On every detail page, the readable blocks whose trimmed name is the team
  gifts label, in any letter case, give no member record: the members are the other
  readable blocks, in order, and the team gifts are the amount of the last block with
  the label, 0.0 when there is none.
\<close>

theorem team_gifts_block:
  "fst (snd (scrape_team_members pg t)) =
     (map (\<lambda>e. \<lparr>full_name = fst e, amount = snd e, team = detail_team_name pg\<rparr>)
        (filter (\<lambda>e. \<not> spec_is_team_gifts (fst e)) (spec_readable_blocks pg)),
      if filter (\<lambda>e. spec_is_team_gifts (fst e)) (spec_readable_blocks pg) = []
      then Finite 0
      else snd (last (filter (\<lambda>e. spec_is_team_gifts (fst e)) (spec_readable_blocks pg))))"
proof (cases "items_present pg")
  case True
  obtain mems gifts out where
    f: "foldl (scrape_block (detail_team_name pg)) ([], Finite 0, []) (member_blocks pg) =
        (mems, gifts, out)"
    by (cases "foldl (scrape_block (detail_team_name pg)) ([], Finite 0, []) (member_blocks pg)")
      auto
  from foldl_scrape_block [OF f] True f show ?thesis
    by (simp add: scrape_team_members_def spec_readable_blocks_def Let_def)
next
  case False
  then show ?thesis
    by (simp add: scrape_team_members_def spec_readable_blocks_def Let_def)
qed

theorem team_gifts_block_witness:
  "fst (snd (scrape_team_members
     \<lparr>user_info_h2 = Some ''Alpha'', personal_header = None, items_present = True,
       member_blocks =
         [\<lparr>participant_name = Some ''Team Gifts'', participant_raised = Some ''$20.00''\<rparr>,
          \<lparr>participant_name = Some ''Alice'', participant_raised = Some ''$45.00''\<rparr>,
          \<lparr>participant_name = None, participant_raised = Some ''$5.00''\<rparr>,
          \<lparr>participant_name = Some '' TEAM gifts '', participant_raised = Some ''$60.00''\<rparr>]\<rparr>
     \<lparr>team_name = [], team_link = ''u''\<rparr>)) =
     ([\<lparr>full_name = ''Alice'', amount = Finite 45, team = ''Alpha''\<rparr>], Finite 60)"
proof -
  have a: "parse_amount ''$20.00'' = Finite 20" "parse_amount ''$45.00'' = Finite 45"
      "parse_amount ''$60.00'' = Finite 60"
    by (simp_all add: parse_amount_def amount_str_def float_defs string_defs)
  from team_gifts_block
    [of "\<lparr>user_info_h2 = Some ''Alpha'', personal_header = None, items_present = True,
       member_blocks =
         [\<lparr>participant_name = Some ''Team Gifts'', participant_raised = Some ''$20.00''\<rparr>,
          \<lparr>participant_name = Some ''Alice'', participant_raised = Some ''$45.00''\<rparr>,
          \<lparr>participant_name = None, participant_raised = Some ''$5.00''\<rparr>,
          \<lparr>participant_name = Some '' TEAM gifts '', participant_raised = Some ''$60.00''\<rparr>]\<rparr>"
        "\<lparr>team_name = [], team_link = ''u''\<rparr>"]
  show ?thesis
    by (simp add: a spec_readable_blocks_def spec_read_block_def spec_is_team_gifts_lower
        detail_team_name_def string_defs)
qed

section \<open>The sign of a parsed amount\<close>




















section \<open>A team whose member blocks are not found\<close>















end
